theory Spec2Isabelle
  imports Main
begin

section \<open>Shared CDK vocabulary\<close>

text \<open>
  The constructs of this repository are composition functions over classes of
  \<^verbatim>\<open>aws-cdk-lib\<close>. A library class is modelled by the value this code builds with
  it: the construct id and the properties passed to \<^verbatim>\<open>new X(this, id, props)\<close>,
  together with what later method calls of this code add to it. Validation done
  inside the library is not part of the model. The \<^verbatim>\<open>scope\<close> and \<^verbatim>\<open>id\<close>
  arguments of a constructor of this repository only reach \<^verbatim>\<open>super(scope, id)\<close>
  and are left out.
\<close>

text \<open>
  Modelled from the spec: the interface \<^verbatim>\<open>OSMLAccount\<close> (\<^verbatim>\<open>../osml_account\<close>) is
  not among the sources. The code reads \<^verbatim>\<open>account.id\<close>, \<^verbatim>\<open>account.region\<close>,
  \<^verbatim>\<open>account.prodLike\<close> and \<^verbatim>\<open>account.auth\<close>; the spec describes an account id, a
  region and flags. The field \<^verbatim>\<open>id\<close> is named \<open>acct_id\<close> here.
\<close>

record OSMLAccount =
  acct_id :: string
  region :: string
  prodLike :: bool
  auth :: bool

datatype Effect = ALLOW | DENY

datatype Principal =
    AnyPrincipal
  | ServicePrincipal string
  | CompositePrincipal "Principal list"

text \<open>
  The properties object given to \<^verbatim>\<open>new PolicyStatement({...})\<close>. A key the code
  leaves out is \<open>None\<close> (\<open>effect\<close>) or the empty list (\<open>principals\<close>).
\<close>

record PolicyStatement =
  effect :: "Effect option"
  principals :: "Principal list"
  actions :: "string list"
  resources :: "string list"

text \<open>The library's default: a statement built without \<^verbatim>\<open>effect\<close> allows.\<close>

definition statement_effect :: "PolicyStatement \<Rightarrow> Effect" where
  "statement_effect s = (case effect s of None \<Rightarrow> ALLOW | Some e \<Rightarrow> e)"

section \<open>The tile server lambda role (ts_lambda_role.ts)\<close>

record TSLambdaRoleProps =
  tsprops_account :: OSMLAccount
  tsprops_roleName :: string

text \<open>
  The class \<^verbatim>\<open>TSDataplaneConfig\<close> (\<^verbatim>\<open>../ts_dataplane\<close>) is not among the
  sources. The role reads one field, \<^verbatim>\<open>DDB_JOB_TABLE\<close>, of a default instance;
  that instance is a parameter of the model.
\<close>

record TSDataplaneConfig =
  DDB_JOB_TABLE :: string

record RoleProps =
  roleName :: string
  assumedBy :: Principal
  description :: string

text \<open>A \<^verbatim>\<open>Role\<close>: its construct id, its properties, and the statements added to its policy.\<close>

record Role =
  role_id :: string
  role_props :: RoleProps
  policy :: "PolicyStatement list"

definition new_Role :: "string \<Rightarrow> RoleProps \<Rightarrow> Role" where
  "new_Role i p = \<lparr>role_id = i, role_props = p, policy = []\<rparr>"

definition addToPolicy :: "Role \<Rightarrow> PolicyStatement \<Rightarrow> Role" where
  "addToPolicy r s = r\<lparr>policy := policy r @ [s]\<rparr>"

text \<open>
  \<^verbatim>\<open>region_info.Fact.find(region, name)\<close> belongs to the library and returns
  \<^verbatim>\<open>string | undefined\<close>; it is a parameter \<open>Fact_find\<close> of the model. The fact name
  \<^verbatim>\<open>region_info.FactName.PARTITION\<close> is the string \<^verbatim>\<open>"partition"\<close>.
\<close>

definition PARTITION :: string where
  "PARTITION = ''partition''"

text \<open>
  A template literal \<^verbatim>\<open>`${x}`\<close> prints an undefined value as the text
  \<^verbatim>\<open>undefined\<close>.
\<close>

definition interpolate :: "string option \<Rightarrow> string" where
  "interpolate x = (case x of None \<Rightarrow> ''undefined'' | Some s \<Rightarrow> s)"

text \<open>
  The object built by the constructor. The field \<^verbatim>\<open>partition\<close> is named
  \<open>ts_partition\<close>; it is declared \<^verbatim>\<open>string\<close>, but holds whatever the lookup
  returned: the postfix \<^verbatim>\<open>!\<close> of the source is erased by the compiler and checks
  nothing when the program runs.
\<close>

record TSLambdaRole =
  role :: Role
  ts_partition :: "string option"
  tsDataplaneConfig :: TSDataplaneConfig

definition new_TSLambdaRole ::
  "(string \<Rightarrow> string \<Rightarrow> string option) \<Rightarrow> TSDataplaneConfig \<Rightarrow> TSLambdaRoleProps \<Rightarrow> TSLambdaRole"
where
  "new_TSLambdaRole Fact_find new_TSDataplaneConfig props =
    (let this_tsDataplaneConfig = new_TSDataplaneConfig;
         this_partition = Fact_find (region (tsprops_account props)) PARTITION;
         role0 = new_Role ''TSLambdaRole''
           \<lparr>roleName = tsprops_roleName props,
            assumedBy = CompositePrincipal [ServicePrincipal ''lambda.amazonaws.com''],
            description = ''Allows the OversightML Tile Server Lambda Sweeper to access necessary AWS services (CW, SQS, DynamoDB, ...)''\<rparr>;
         role1 = addToPolicy role0
           \<lparr>effect = Some ALLOW,
            principals = [],
            actions = [''dynamodb:GetItem'', ''dynamodb:PutItem'', ''dynamodb:UpdateItem''],
            resources =
              [''arn:'' @ interpolate this_partition @ '':dynamodb:''
                 @ region (tsprops_account props) @ '':'' @ acct_id (tsprops_account props)
                 @ '':table/'' @ DDB_JOB_TABLE this_tsDataplaneConfig]\<rparr>;
         role2 = addToPolicy role1
           \<lparr>effect = Some ALLOW,
            principals = [],
            actions = [''lambda:GetFunctionConfiguration''],
            resources =
              [''arn:'' @ interpolate this_partition @ '':lambda:''
                 @ region (tsprops_account props) @ '':'' @ acct_id (tsprops_account props)
                 @ '':function:*'']\<rparr>;
         role3 = addToPolicy role2
           \<lparr>effect = Some ALLOW,
            principals = [],
            actions =
              [''elasticloadbalancing:DescribeLoadBalancers'',
               ''ec2:CreateNetworkInterface'',
               ''ec2:DescribeNetworkInterfaces'',
               ''ec2:DeleteNetworkInterface'',
               ''ec2:DescribeInstances'',
               ''ec2:AttachNetworkInterface''],
            resources = [''*'']\<rparr>;
         role4 = addToPolicy role3
           \<lparr>effect = Some ALLOW,
            principals = [],
            actions = [''logs:CreateLogGroup'', ''logs:CreateLogStream'', ''logs:PutLogEvents''],
            resources =
              [''arn:'' @ interpolate this_partition @ '':logs:''
                 @ region (tsprops_account props) @ '':'' @ acct_id (tsprops_account props)
                 @ '':*'']\<rparr>
     in \<lparr>role = role4,
         ts_partition = this_partition,
         tsDataplaneConfig = this_tsDataplaneConfig\<rparr>)"

section \<open>The data catalog dataplane (src/unnamed/part_001)\<close>

subsection \<open>Configuration\<close>

text \<open>
  The fields in the order of the constructor's parameters. A \<^verbatim>\<open>number\<close> field is
  only stored and handed on, never computed with; it is an \<open>int\<close> here.
\<close>

record DCDataplaneConfig =
  LAMBDA_ROLE_NAME :: string
  LAMBDA_MEMORY_SIZE :: int
  LAMBDA_STORAGE_SIZE :: int
  LAMBDA_TIMEOUT :: int
  OS_DATA_NODES :: int
  OS_EBS_SIZE :: int
  STAC_FASTAPI_BACKEND :: string
  STAC_FASTAPI_TITLE :: string
  STAC_FASTAPI_DESCRIPTION :: string
  STAC_FASTAPI_VERSION :: string
  STAC_FASTAPI_ROOT_PATH :: string
  RELOAD :: string
  ENVIRONMENT :: string
  WEB_CONCURRENCY :: string
  ES_PORT :: string
  ES_USE_SSL :: string
  ES_VERIFY_CERTS :: string
  SERVICE_NAME_ABBREVIATION :: string
  SNS_INGEST_TOPIC_NAME :: string

text \<open>
  A parameter with a default, \<^verbatim>\<open>x: T = d\<close>: the default is taken when the argument
  is left out or is \<^verbatim>\<open>undefined\<close> (\<open>None\<close>).
\<close>

definition default_param :: "'a \<Rightarrow> 'a option \<Rightarrow> 'a" where
  "default_param d a = (case a of None \<Rightarrow> d | Some v \<Rightarrow> v)"

definition new_DCDataplaneConfig ::
  "string option \<Rightarrow> int option \<Rightarrow> int option \<Rightarrow> int option \<Rightarrow> int option \<Rightarrow> int option
   \<Rightarrow> string option \<Rightarrow> string option \<Rightarrow> string option \<Rightarrow> string option \<Rightarrow> string option
   \<Rightarrow> string option \<Rightarrow> string option \<Rightarrow> string option \<Rightarrow> string option \<Rightarrow> string option
   \<Rightarrow> string option \<Rightarrow> string option \<Rightarrow> string option \<Rightarrow> DCDataplaneConfig"
where
  "new_DCDataplaneConfig a1 a2 a3 a4 a5 a6 a7 a8 a9 a10 a11 a12 a13 a14 a15 a16 a17 a18 a19 =
    \<lparr>LAMBDA_ROLE_NAME = default_param ''DCLambdaRole'' a1,
     LAMBDA_MEMORY_SIZE = default_param 4096 a2,
     LAMBDA_STORAGE_SIZE = default_param 10 a3,
     LAMBDA_TIMEOUT = default_param 300 a4,
     OS_DATA_NODES = default_param 4 a5,
     OS_EBS_SIZE = default_param 10 a6,
     STAC_FASTAPI_BACKEND = default_param ''opensearch'' a7,
     STAC_FASTAPI_TITLE = default_param ''stac-fastapi-opensearch'' a8,
     STAC_FASTAPI_DESCRIPTION = default_param ''A STAC FastAPI with an OpenSearch backend'' a9,
     STAC_FASTAPI_VERSION = default_param ''2.4.1'' a10,
     STAC_FASTAPI_ROOT_PATH = default_param ''data-catalog'' a11,
     RELOAD = default_param ''true'' a12,
     ENVIRONMENT = default_param ''local'' a13,
     WEB_CONCURRENCY = default_param ''10'' a14,
     ES_PORT = default_param ''443'' a15,
     ES_USE_SSL = default_param ''true'' a16,
     ES_VERIFY_CERTS = default_param ''true'' a17,
     SERVICE_NAME_ABBREVIATION = default_param ''DC'' a18,
     SNS_INGEST_TOPIC_NAME = default_param ''osml-stac-ingest'' a19\<rparr>"

text \<open>\<^verbatim>\<open>new DCDataplaneConfig()\<close>: every argument left out.\<close>

definition new_DCDataplaneConfig_noargs :: DCDataplaneConfig where
  "new_DCDataplaneConfig_noargs =
     new_DCDataplaneConfig None None None None None None None None None None
       None None None None None None None None None"

subsection \<open>Resources and handles\<close>

datatype RemovalPolicy = DESTROY | RETAIN | SNAPSHOT | RETAIN_ON_UPDATE_OR_DELETE

datatype IVpc = IVpc string

record SubnetSelection =
  subnetIds :: "string list"

text \<open>
  Modelled from the spec: the class \<^verbatim>\<open>OSMLVpc\<close> (\<^verbatim>\<open>../osml_vpc\<close>) is not among
  the sources. The spec's network context is a virtual network plus a subnet selection;
  the code reads \<^verbatim>\<open>vpc\<close> and \<^verbatim>\<open>selectedSubnets\<close>.
\<close>

record OSMLVpc =
  vpc :: IVpc
  selectedSubnets :: SubnetSelection

datatype DockerImageCode = DockerImageCode string

record TopicProps =
  topicName :: string

text \<open>
  A topic handle: a topic made by \<^verbatim>\<open>new Topic(this, id, props)\<close>, or one that
  exists elsewhere and is known by its ARN.
\<close>

datatype ITopic = Topic string TopicProps | ExistingTopic string

text \<open>
  Modelled from the spec: the class \<^verbatim>\<open>DCLambdaRole\<close> (\<^verbatim>\<open>./roles/dc_lambda_role\<close>)
  is not among the sources. The spec's role construct takes an account and a role name
  and yields one principal; the construct is kept as the id and properties it is built
  with, and its \<^verbatim>\<open>.role\<close> as a handle on that construct. An \<^verbatim>\<open>IRole\<close> is that
  handle, or a role that exists elsewhere and is known by its ARN.
\<close>

record DCLambdaRoleProps =
  dcrole_account :: OSMLAccount
  dcrole_roleName :: string

datatype DCLambdaRole = DCLambdaRole (dcrole_id: string) (dcrole_props: DCLambdaRoleProps)

datatype IRole = DCLambdaRole_role DCLambdaRole | ExistingRole string

record SecurityGroupProps =
  sg_vpc :: IVpc

text \<open>
  A security group handle: a group made by \<^verbatim>\<open>new SecurityGroup(this, id, props)\<close>,
  or the import \<^verbatim>\<open>SecurityGroup.fromSecurityGroupId(this, id, securityGroupId)\<close>
  of a group that exists.
\<close>

datatype ISecurityGroup =
    SecurityGroup string SecurityGroupProps
  | fromSecurityGroupId string string

datatype Duration = seconds int

datatype Size = gibibytes int

datatype LoggingFormat = TEXT | JSON

datatype Port = tcp nat

datatype EngineVersion = OPENSEARCH_2_11

record DockerImageFunctionProps =
  functionName :: string
  code :: DockerImageCode
  fn_role :: "IRole option"
  fn_vpc :: IVpc
  timeout :: Duration
  ephemeralStorageSize :: Size
  memorySize :: int
  environment :: "(string \<times> string) list"
  loggingFormat :: LoggingFormat

datatype Function = DockerImageFunction (fn_id: string) (fn_props: DockerImageFunctionProps)

record DomainProps =
  version :: EngineVersion
  nodeToNodeEncryption :: bool
  enforceHttps :: bool
  encryptionAtRest_enabled :: bool
  domain_vpc :: IVpc
  capacity_dataNodes :: int
  vpcSubnets :: "SubnetSelection list"
  domain_removalPolicy :: RemovalPolicy
  zoneAwareness_enabled :: bool
  zoneAwareness_availabilityZoneCount :: nat
  securityGroups :: "ISecurityGroup list"

text \<open>
  An OpenSearch domain: id and properties, the statements given to
  \<^verbatim>\<open>addAccessPolicies\<close>, and the peers admitted through
  \<^verbatim>\<open>connections.allowFrom\<close>.
\<close>

record Domain =
  domain_id :: string
  domain_props :: DomainProps
  accessPolicies :: "PolicyStatement list"
  connections :: "(Function \<times> Port) list"

definition new_Domain :: "string \<Rightarrow> DomainProps \<Rightarrow> Domain" where
  "new_Domain i p = \<lparr>domain_id = i, domain_props = p, accessPolicies = [], connections = []\<rparr>"

definition addAccessPolicies :: "Domain \<Rightarrow> PolicyStatement \<Rightarrow> Domain" where
  "addAccessPolicies d s = d\<lparr>accessPolicies := accessPolicies d @ [s]\<rparr>"

definition allowFrom :: "Domain \<Rightarrow> Function \<Rightarrow> Port \<Rightarrow> Domain" where
  "allowFrom d f p = d\<lparr>connections := connections d @ [(f, p)]\<rparr>"

text \<open>
  \<^verbatim>\<open>domainArn\<close> and \<^verbatim>\<open>domainEndpoint\<close> are known at deployment only. The
  library hands them out as strings that hold a marker for the attribute; the marker
  here names the domain and the attribute.
\<close>

definition domainArn :: "Domain \<Rightarrow> string" where
  "domainArn d = ''${Token['' @ domain_id d @ ''.Arn]}''"

definition domainEndpoint :: "Domain \<Rightarrow> string" where
  "domainEndpoint d = ''${Token['' @ domain_id d @ ''.DomainEndpoint]}''"

datatype LambdaIntegration = LambdaIntegration Function

text \<open>
  Modelled from the spec: the class \<^verbatim>\<open>OSMLRestApi\<close> (\<^verbatim>\<open>../osml_restapi\<close>) is not
  among the sources. The spec's routing resource fronts one compute resource; the
  construct is kept as the id and properties it is built with.
\<close>

record OSMLRestApiProps =
  api_account :: OSMLAccount
  api_name :: string
  apiStageName :: string
  integration :: LambdaIntegration

datatype OSMLRestApi = OSMLRestApi (api_id: string) (api_props: OSMLRestApiProps)

datatype LambdaSubscription = LambdaSubscription Function

text \<open>A construct declared with this dataplane as its scope.\<close>

datatype construct =
    SecurityGroupNode ISecurityGroup
  | TopicNode ITopic
  | DCLambdaRoleNode DCLambdaRole
  | DomainNode Domain
  | FunctionNode Function
  | RestApiNode OSMLRestApi

subsection \<open>Properties and the object under construction\<close>

text \<open>
  \<^verbatim>\<open>DCDataplaneProps\<close>; a field \<^verbatim>\<open>x\<close> is \<open>props_x\<close>, an optional field is an
  \<open>option\<close>.
\<close>

record DCDataplaneProps =
  props_account :: OSMLAccount
  props_osmlVpc :: OSMLVpc
  props_stacCode :: DockerImageCode
  props_ingestCode :: DockerImageCode
  props_ingestTopic :: "ITopic option"
  props_securityGroupId :: "string option"
  props_lambdaRole :: "IRole option"
  props_config :: "DCDataplaneConfig option"

text \<open>
  The object \<^verbatim>\<open>this\<close>. A public field is undefined (\<open>None\<close>) until it is
  assigned, whatever its declared type. \<open>children\<close> are the constructs declared in
  this scope, in the order of their declaration, each as it stands when the step
  returns; \<open>subscriptions\<close> are the calls of \<^verbatim>\<open>addSubscription\<close> on topics.
\<close>

record DCDataplane =
  removalPolicy :: "RemovalPolicy option"
  config :: "DCDataplaneConfig option"
  dockerImageCode :: "DockerImageCode option"
  lambdaRole :: "IRole option"
  ingestTopic :: "ITopic option"
  securityGroup :: "ISecurityGroup option"
  ingestFunction :: "Function option"
  stacFunction :: "Function option"
  children :: "construct list"
  subscriptions :: "(ITopic \<times> LambdaSubscription) list"

text \<open>The object after \<^verbatim>\<open>super(scope, id)\<close>: nothing assigned, nothing declared.\<close>

definition super_Construct :: DCDataplane where
  "super_Construct =
    \<lparr>removalPolicy = None, config = None, dockerImageCode = None, lambdaRole = None,
     ingestTopic = None, securityGroup = None, ingestFunction = None, stacFunction = None,
     children = [], subscriptions = []\<rparr>"

text \<open>Reading a property of an undefined value throws a \<^verbatim>\<open>TypeError\<close>.\<close>

datatype error = TypeError

definition and_then :: "error + 'a \<Rightarrow> ('a \<Rightarrow> error + 'b) \<Rightarrow> error + 'b" where
  "and_then r f = (case r of Inl e \<Rightarrow> Inl e | Inr x \<Rightarrow> f x)"

text \<open>\<^verbatim>\<open>this.config.F\<close>.\<close>

definition this_config :: "DCDataplane \<Rightarrow> (DCDataplaneConfig \<Rightarrow> 'a) \<Rightarrow> error + 'a" where
  "this_config this F = (case config this of None \<Rightarrow> Inl TypeError | Some c \<Rightarrow> Inr (F c))"

text \<open>\<^verbatim>\<open>if (s)\<close> on a string: the empty string counts as false.\<close>

definition truthy :: "string \<Rightarrow> bool" where
  "truthy s = (s \<noteq> [])"

subsection \<open>The setup step\<close>

text \<open>The five steps of \<^verbatim>\<open>setup(props)\<close>, in the order of the source.\<close>

definition setup_config :: "DCDataplaneProps \<Rightarrow> DCDataplane \<Rightarrow> DCDataplane" where
  "setup_config props this =
    (case props_config props of
       Some c \<Rightarrow> this\<lparr>config := Some c\<rparr>
     | None \<Rightarrow> this\<lparr>config := Some new_DCDataplaneConfig_noargs\<rparr>)"

definition setup_securityGroup :: "DCDataplaneProps \<Rightarrow> DCDataplane \<Rightarrow> DCDataplane" where
  "setup_securityGroup props this =
    (case props_securityGroupId props of
       None \<Rightarrow> this
     | Some sgid \<Rightarrow>
         if truthy sgid then
           (let sg = fromSecurityGroupId ''DCImportSecurityGroup'' sgid
            in this\<lparr>securityGroup := Some sg,
                    children := children this @ [SecurityGroupNode sg]\<rparr>)
         else this)"

definition setup_ingestTopic :: "DCDataplaneProps \<Rightarrow> DCDataplane \<Rightarrow> error + DCDataplane" where
  "setup_ingestTopic props this =
    (case props_ingestTopic props of
       Some t \<Rightarrow> Inr (this\<lparr>ingestTopic := Some t\<rparr>)
     | None \<Rightarrow>
         and_then (this_config this SNS_INGEST_TOPIC_NAME) (\<lambda>name.
           let t = Topic ''DIOutputTopic'' \<lparr>topicName = name\<rparr>
           in Inr (this\<lparr>ingestTopic := Some t, children := children this @ [TopicNode t]\<rparr>)))"

definition setup_removalPolicy :: "DCDataplaneProps \<Rightarrow> DCDataplane \<Rightarrow> DCDataplane" where
  "setup_removalPolicy props this =
    this\<lparr>removalPolicy := Some (if prodLike (props_account props) then RETAIN else DESTROY)\<rparr>"

definition setup_lambdaRole :: "DCDataplaneProps \<Rightarrow> DCDataplane \<Rightarrow> error + DCDataplane" where
  "setup_lambdaRole props this =
    (case props_lambdaRole props of
       Some r \<Rightarrow> Inr (this\<lparr>lambdaRole := Some r\<rparr>)
     | None \<Rightarrow>
         and_then (this_config this LAMBDA_ROLE_NAME) (\<lambda>name.
           let c = DCLambdaRole ''DCLambdaRole''
                     \<lparr>dcrole_account = props_account props, dcrole_roleName = name\<rparr>
           in Inr (this\<lparr>lambdaRole := Some (DCLambdaRole_role c),
                         children := children this @ [DCLambdaRoleNode c]\<rparr>)))"

text \<open>\<^verbatim>\<open>DCDataplane.setup\<close>, named \<open>DCDataplane_setup\<close> here.\<close>

definition DCDataplane_setup :: "DCDataplaneProps \<Rightarrow> DCDataplane \<Rightarrow> error + DCDataplane" where
  "DCDataplane_setup props this =
    and_then (setup_ingestTopic props (setup_securityGroup props (setup_config props this)))
      (\<lambda>this. setup_lambdaRole props (setup_removalPolicy props this))"

subsection \<open>The constructor\<close>

text \<open>
  \<^verbatim>\<open>new DCDataplane(scope, id, props)\<close>. \<^verbatim>\<open>this.config\<close> is read in many
  places and assigned in none after the setup step, so it is read once. The local
  \<^verbatim>\<open>osDomain\<close> is changed three times after its declaration; \<open>osDomain0\<close> to
  \<open>osDomain3\<close> are its successive states, and the last one is the child.
\<close>

definition new_DCDataplane :: "DCDataplaneProps \<Rightarrow> error + DCDataplane" where
  "new_DCDataplane props =
    and_then (DCDataplane_setup props super_Construct) (\<lambda>this.
    and_then (this_config this (\<lambda>c. c)) (\<lambda>cfg.
      let opensearchSecurityGroup =
            SecurityGroup ''DCOSSecurityGroup'' \<lparr>sg_vpc = vpc (props_osmlVpc props)\<rparr>;
          osDomain0 = new_Domain ''DCOSDomain''
            \<lparr>version = OPENSEARCH_2_11,
             nodeToNodeEncryption = True,
             enforceHttps = True,
             encryptionAtRest_enabled = True,
             domain_vpc = vpc (props_osmlVpc props),
             capacity_dataNodes = OS_DATA_NODES cfg,
             vpcSubnets = [selectedSubnets (props_osmlVpc props)],
             domain_removalPolicy = (if prodLike (props_account props) then RETAIN else DESTROY),
             zoneAwareness_enabled = True,
             zoneAwareness_availabilityZoneCount =
               length (subnetIds (selectedSubnets (props_osmlVpc props))),
             securityGroups = [opensearchSecurityGroup]\<rparr>;
          osDomain1 = addAccessPolicies osDomain0
            \<lparr>effect = None,
             principals = [AnyPrincipal],
             actions = [''es:ESHttp*''],
             resources = [domainArn osDomain0 @ ''/*'']\<rparr>;
          env =
            [(''STAC_FASTAPI_TITLE'', STAC_FASTAPI_TITLE cfg),
             (''STAC_FASTAPI_DESCRIPTION'', STAC_FASTAPI_DESCRIPTION cfg),
             (''STAC_FASTAPI_VERSION'', STAC_FASTAPI_VERSION cfg),
             (''RELOAD'', RELOAD cfg),
             (''ENVIRONMENT'', ENVIRONMENT cfg),
             (''WEB_CONCURRENCY'', WEB_CONCURRENCY cfg),
             (''ES_HOST'', domainEndpoint osDomain1),
             (''ES_PORT'', ES_PORT cfg),
             (''ES_USE_SSL'', ES_USE_SSL cfg),
             (''ES_VERIFY_CERTS'', ES_VERIFY_CERTS cfg),
             (''STAC_FASTAPI_ROOT_PATH'', ''/'' @ STAC_FASTAPI_ROOT_PATH cfg)];
          this_stacFunction = DockerImageFunction ''DCStacFunction''
            \<lparr>functionName = ''DCStacLambda'',
             code = props_stacCode props,
             fn_role = lambdaRole this,
             fn_vpc = vpc (props_osmlVpc props),
             timeout = seconds (LAMBDA_TIMEOUT cfg),
             ephemeralStorageSize = gibibytes (LAMBDA_STORAGE_SIZE cfg),
             memorySize = LAMBDA_MEMORY_SIZE cfg,
             environment = env,
             loggingFormat = JSON\<rparr>;
          osDomain2 = allowFrom osDomain1 this_stacFunction (tcp 443);
          restApi =
            (if auth (props_account props) then
               [RestApiNode (OSMLRestApi ''DCRestApi''
                  \<lparr>api_account = props_account props,
                   api_name = SERVICE_NAME_ABBREVIATION cfg,
                   apiStageName = STAC_FASTAPI_ROOT_PATH cfg,
                   integration = LambdaIntegration this_stacFunction\<rparr>)]
             else []);
          this_ingestFunction = DockerImageFunction ''DCIngestFunction''
            \<lparr>functionName = ''DCIngestLambda'',
             code = props_ingestCode props,
             fn_role = lambdaRole this,
             fn_vpc = vpc (props_osmlVpc props),
             timeout = seconds (LAMBDA_TIMEOUT cfg),
             ephemeralStorageSize = gibibytes (LAMBDA_STORAGE_SIZE cfg),
             memorySize = LAMBDA_MEMORY_SIZE cfg,
             environment = env,
             loggingFormat = JSON\<rparr>
      in (case ingestTopic this of
            None \<Rightarrow> Inl TypeError
          | Some topic \<Rightarrow>
              let osDomain3 = allowFrom osDomain2 this_ingestFunction (tcp 443)
              in Inr (this
                   \<lparr>stacFunction := Some this_stacFunction,
                    ingestFunction := Some this_ingestFunction,
                    children := children this
                      @ [SecurityGroupNode opensearchSecurityGroup,
                         DomainNode osDomain3,
                         FunctionNode this_stacFunction]
                      @ restApi
                      @ [FunctionNode this_ingestFunction],
                    subscriptions := subscriptions this
                      @ [(topic, LambdaSubscription this_ingestFunction)]\<rparr>))))"

subsection \<open>Reading a declaration\<close>

text \<open>The children of each kind, in declaration order.\<close>

definition topic_nodes :: "construct list \<Rightarrow> ITopic list" where
  "topic_nodes cs = concat (map (\<lambda>c. case c of TopicNode t \<Rightarrow> [t] | _ \<Rightarrow> []) cs)"

definition role_nodes :: "construct list \<Rightarrow> DCLambdaRole list" where
  "role_nodes cs = concat (map (\<lambda>c. case c of DCLambdaRoleNode r \<Rightarrow> [r] | _ \<Rightarrow> []) cs)"

definition securityGroup_nodes :: "construct list \<Rightarrow> ISecurityGroup list" where
  "securityGroup_nodes cs =
     concat (map (\<lambda>c. case c of SecurityGroupNode g \<Rightarrow> [g] | _ \<Rightarrow> []) cs)"

definition domain_nodes :: "construct list \<Rightarrow> Domain list" where
  "domain_nodes cs = concat (map (\<lambda>c. case c of DomainNode d \<Rightarrow> [d] | _ \<Rightarrow> []) cs)"

definition function_nodes :: "construct list \<Rightarrow> Function list" where
  "function_nodes cs = concat (map (\<lambda>c. case c of FunctionNode f \<Rightarrow> [f] | _ \<Rightarrow> []) cs)"

definition restApi_nodes :: "construct list \<Rightarrow> OSMLRestApi list" where
  "restApi_nodes cs = concat (map (\<lambda>c. case c of RestApiNode a \<Rightarrow> [a] | _ \<Rightarrow> []) cs)"

text \<open>
  A security group handle stands for a new group when it was made by
  \<^verbatim>\<open>new SecurityGroup\<close>; an import declares no group.
\<close>

fun is_new_SecurityGroup :: "ISecurityGroup \<Rightarrow> bool" where
  "is_new_SecurityGroup (SecurityGroup i p) = True"
| "is_new_SecurityGroup (fromSecurityGroupId i g) = False"

section \<open>Concrete inputs\<close>

text \<open>The account of the spec's scenarios.\<close>

definition test_account :: OSMLAccount where
  "test_account =
     \<lparr>acct_id = ''123456789012'', region = ''us-east-1'', prodLike = False, auth = False\<rparr>"

text \<open>A fact table that knows one region, and an account in a region it does not know.\<close>

definition test_facts :: "string \<Rightarrow> string \<Rightarrow> string option" where
  "test_facts r n = (if r = ''us-east-1'' \<and> n = ''partition'' then Some ''aws'' else None)"

definition unknown_region_account :: OSMLAccount where
  "unknown_region_account =
     \<lparr>acct_id = ''123456789012'', region = ''mars-north-1'', prodLike = False, auth = False\<rparr>"

definition test_ts_config :: TSDataplaneConfig where
  "test_ts_config = \<lparr>DDB_JOB_TABLE = ''TSJobTable''\<rparr>"

text \<open>Dataplane properties: nothing optional supplied.\<close>

definition test_vpc :: OSMLVpc where
  "test_vpc = \<lparr>vpc = IVpc ''vpc-1'', selectedSubnets = \<lparr>subnetIds = [''subnet-a'', ''subnet-b'']\<rparr>\<rparr>"

definition test_props :: DCDataplaneProps where
  "test_props =
    \<lparr>props_account = test_account, props_osmlVpc = test_vpc,
     props_stacCode = DockerImageCode ''stac'', props_ingestCode = DockerImageCode ''ingest'',
     props_ingestTopic = None, props_securityGroupId = None, props_lambdaRole = None,
     props_config = None\<rparr>"

text \<open>Every collaborator supplied.\<close>

definition supplied_props :: DCDataplaneProps where
  "supplied_props =
    \<lparr>props_account = test_account, props_osmlVpc = test_vpc,
     props_stacCode = DockerImageCode ''stac'', props_ingestCode = DockerImageCode ''ingest'',
     props_ingestTopic = Some (ExistingTopic ''arn:aws:sns:us-east-1:123456789012:stac-items''),
     props_securityGroupId = Some ''sg-0123456789abcdef0'',
     props_lambdaRole = Some (ExistingRole ''arn:aws:iam::123456789012:role/CatalogRole''),
     props_config = None\<rparr>"

text \<open>A configuration that differs from the defaults in every field.\<close>

definition custom_config :: DCDataplaneConfig where
  "custom_config =
    \<lparr>LAMBDA_ROLE_NAME = ''CatalogRole'',
     LAMBDA_MEMORY_SIZE = 1024,
     LAMBDA_STORAGE_SIZE = 2,
     LAMBDA_TIMEOUT = 60,
     OS_DATA_NODES = 2,
     OS_EBS_SIZE = 20,
     STAC_FASTAPI_BACKEND = ''elasticsearch'',
     STAC_FASTAPI_TITLE = ''catalog'',
     STAC_FASTAPI_DESCRIPTION = ''A catalog'',
     STAC_FASTAPI_VERSION = ''3.0.0'',
     STAC_FASTAPI_ROOT_PATH = ''catalog'',
     RELOAD = ''false'',
     ENVIRONMENT = ''prod'',
     WEB_CONCURRENCY = ''4'',
     ES_PORT = ''9200'',
     ES_USE_SSL = ''false'',
     ES_VERIFY_CERTS = ''false'',
     SERVICE_NAME_ABBREVIATION = ''CAT'',
     SNS_INGEST_TOPIC_NAME = ''catalog-ingest''\<rparr>"

definition custom_config_props :: DCDataplaneProps where
  "custom_config_props =
    \<lparr>props_account = test_account, props_osmlVpc = test_vpc,
     props_stacCode = DockerImageCode ''stac'', props_ingestCode = DockerImageCode ''ingest'',
     props_ingestTopic = None, props_securityGroupId = None, props_lambdaRole = None,
     props_config = Some custom_config\<rparr>"

text \<open>A production-like account that asks for authenticated access.\<close>

definition auth_account :: OSMLAccount where
  "auth_account =
     \<lparr>acct_id = ''123456789012'', region = ''us-east-1'', prodLike = True, auth = True\<rparr>"

definition auth_props :: DCDataplaneProps where
  "auth_props =
    \<lparr>props_account = auth_account, props_osmlVpc = test_vpc,
     props_stacCode = DockerImageCode ''stac'', props_ingestCode = DockerImageCode ''ingest'',
     props_ingestTopic = None, props_securityGroupId = None, props_lambdaRole = None,
     props_config = None\<rparr>"

section \<open>Auxiliary facts about the dataplane\<close>

lemmas node_defs = topic_nodes_def role_nodes_def securityGroup_nodes_def domain_nodes_def
  function_nodes_def restApi_nodes_def

text \<open>The setup step always returns; its result, field by field.\<close>

lemma setup_fields:
  "\<exists>d. DCDataplane_setup p this = Inr d
     \<and> config d = Some (case props_config p of Some c \<Rightarrow> c | None \<Rightarrow> new_DCDataplaneConfig_noargs)
     \<and> securityGroup d =
         (case props_securityGroupId p of
            None \<Rightarrow> securityGroup this
          | Some g \<Rightarrow> if truthy g then Some (fromSecurityGroupId ''DCImportSecurityGroup'' g)
                      else securityGroup this)
     \<and> ingestTopic d =
         Some (case props_ingestTopic p of
                 Some t \<Rightarrow> t
               | None \<Rightarrow> Topic ''DIOutputTopic''
                   \<lparr>topicName = SNS_INGEST_TOPIC_NAME
                      (case props_config p of Some c \<Rightarrow> c | None \<Rightarrow> new_DCDataplaneConfig_noargs)\<rparr>)
     \<and> removalPolicy d = Some (if prodLike (props_account p) then RETAIN else DESTROY)
     \<and> lambdaRole d =
         Some (case props_lambdaRole p of
                 Some r \<Rightarrow> r
               | None \<Rightarrow> DCLambdaRole_role (DCLambdaRole ''DCLambdaRole''
                   \<lparr>dcrole_account = props_account p,
                    dcrole_roleName = LAMBDA_ROLE_NAME
                      (case props_config p of Some c \<Rightarrow> c | None \<Rightarrow> new_DCDataplaneConfig_noargs)\<rparr>))
     \<and> children d = children this
           @ (case props_securityGroupId p of
                None \<Rightarrow> []
              | Some g \<Rightarrow> if truthy g
                          then [SecurityGroupNode (fromSecurityGroupId ''DCImportSecurityGroup'' g)]
                          else [])
           @ (case props_ingestTopic p of
                Some t \<Rightarrow> []
              | None \<Rightarrow> [TopicNode (Topic ''DIOutputTopic''
                   \<lparr>topicName = SNS_INGEST_TOPIC_NAME
                      (case props_config p of Some c \<Rightarrow> c | None \<Rightarrow> new_DCDataplaneConfig_noargs)\<rparr>)])
           @ (case props_lambdaRole p of
                Some r \<Rightarrow> []
              | None \<Rightarrow> [DCLambdaRoleNode (DCLambdaRole ''DCLambdaRole''
                   \<lparr>dcrole_account = props_account p,
                    dcrole_roleName = LAMBDA_ROLE_NAME
                      (case props_config p of Some c \<Rightarrow> c | None \<Rightarrow> new_DCDataplaneConfig_noargs)\<rparr>)])
     \<and> subscriptions d = subscriptions this
     \<and> stacFunction d = stacFunction this
     \<and> ingestFunction d = ingestFunction this
     \<and> dockerImageCode d = dockerImageCode this"
  by (cases "props_config p"; cases "props_securityGroupId p"; cases "props_ingestTopic p";
      cases "props_lambdaRole p";
      simp add: DCDataplane_setup_def setup_config_def setup_securityGroup_def
        setup_ingestTopic_def setup_removalPolicy_def setup_lambdaRole_def and_then_def
        this_config_def Let_def)

text \<open>What the constructor adds to the object the setup step returned.\<close>

lemma new_DCDataplane_fields:
  assumes "DCDataplane_setup p super_Construct = Inr d0"
    and "config d0 = Some cfg"
    and "ingestTopic d0 = Some topic"
  shows "\<exists>d stf igf osd.
      new_DCDataplane p = Inr d
    \<and> config d = Some cfg
    \<and> removalPolicy d = removalPolicy d0
    \<and> lambdaRole d = lambdaRole d0
    \<and> ingestTopic d = Some topic
    \<and> securityGroup d = securityGroup d0
    \<and> stacFunction d = Some stf
    \<and> ingestFunction d = Some igf
    \<and> children d = children d0
         @ [SecurityGroupNode (SecurityGroup ''DCOSSecurityGroup'' \<lparr>sg_vpc = vpc (props_osmlVpc p)\<rparr>),
            DomainNode osd, FunctionNode stf]
         @ (if auth (props_account p) then
              [RestApiNode (OSMLRestApi ''DCRestApi''
                 \<lparr>api_account = props_account p,
                  api_name = SERVICE_NAME_ABBREVIATION cfg,
                  apiStageName = STAC_FASTAPI_ROOT_PATH cfg,
                  integration = LambdaIntegration stf\<rparr>)]
            else [])
         @ [FunctionNode igf]
    \<and> fn_id stf = ''DCStacFunction''
    \<and> fn_id igf = ''DCIngestFunction''
    \<and> environment (fn_props stf) = environment (fn_props igf)
    \<and> map_of (environment (fn_props stf)) ''ES_HOST'' = Some (domainEndpoint osd)
    \<and> fn_role (fn_props stf) = lambdaRole d0
    \<and> fn_role (fn_props igf) = lambdaRole d0
    \<and> domain_id osd = ''DCOSDomain''
    \<and> domain_removalPolicy (domain_props osd)
        = (if prodLike (props_account p) then RETAIN else DESTROY)
    \<and> accessPolicies osd =
        [\<lparr>effect = None, principals = [AnyPrincipal], actions = [''es:ESHttp*''],
          resources = [domainArn osd @ ''/*'']\<rparr>]
    \<and> subscriptions d = subscriptions d0 @ [(topic, LambdaSubscription igf)]"
  using assms
  by (simp add: new_DCDataplane_def and_then_def this_config_def Let_def new_Domain_def
      addAccessPolicies_def allowFrom_def domainArn_def domainEndpoint_def)

lemma new_DCDataplane_config:
  "\<exists>d. new_DCDataplane p = Inr d
     \<and> config d = Some (case props_config p of Some c \<Rightarrow> c | None \<Rightarrow> new_DCDataplaneConfig_noargs)"
proof -
  obtain d0 where "DCDataplane_setup p super_Construct = Inr d0"
    and "config d0 = Some (case props_config p of Some c \<Rightarrow> c | None \<Rightarrow> new_DCDataplaneConfig_noargs)"
    and "\<exists>t. ingestTopic d0 = Some t"
    using setup_fields [of p super_Construct] by blast
  then show ?thesis
    using new_DCDataplane_fields [of p d0] by blast
qed

lemma setup_super_nodes:
  "\<exists>d0 cfg topic.
      DCDataplane_setup p super_Construct = Inr d0
    \<and> config d0 = Some cfg
    \<and> cfg = (case props_config p of Some c \<Rightarrow> c | None \<Rightarrow> new_DCDataplaneConfig_noargs)
    \<and> ingestTopic d0 = Some topic
    \<and> removalPolicy d0 = Some (if prodLike (props_account p) then RETAIN else DESTROY)
    \<and> domain_nodes (children d0) = []
    \<and> function_nodes (children d0) = []
    \<and> restApi_nodes (children d0) = []
    \<and> role_nodes (children d0) =
        (case props_lambdaRole p of
           Some r \<Rightarrow> []
         | None \<Rightarrow> [DCLambdaRole ''DCLambdaRole''
             \<lparr>dcrole_account = props_account p, dcrole_roleName = LAMBDA_ROLE_NAME cfg\<rparr>])
    \<and> topic_nodes (children d0) =
        (case props_ingestTopic p of
           Some t \<Rightarrow> []
         | None \<Rightarrow> [Topic ''DIOutputTopic'' \<lparr>topicName = SNS_INGEST_TOPIC_NAME cfg\<rparr>])"
  using setup_fields [of p super_Construct]
  by (auto simp: super_Construct_def node_defs split: option.splits)

lemma nodes_after_setup:
  "domain_nodes (cs @ [SecurityGroupNode g, DomainNode osd, FunctionNode stf] @ rs @ [FunctionNode igf])
     = domain_nodes cs @ [osd] @ domain_nodes rs"
  "function_nodes (cs @ [SecurityGroupNode g, DomainNode osd, FunctionNode stf] @ rs @ [FunctionNode igf])
     = function_nodes cs @ [stf] @ function_nodes rs @ [igf]"
  "restApi_nodes (cs @ [SecurityGroupNode g, DomainNode osd, FunctionNode stf] @ rs @ [FunctionNode igf])
     = restApi_nodes cs @ restApi_nodes rs"
  "role_nodes (cs @ [SecurityGroupNode g, DomainNode osd, FunctionNode stf] @ rs @ [FunctionNode igf])
     = role_nodes cs @ role_nodes rs"
  "topic_nodes (cs @ [SecurityGroupNode g, DomainNode osd, FunctionNode stf] @ rs @ [FunctionNode igf])
     = topic_nodes cs @ topic_nodes rs"
  by (simp_all add: node_defs)

lemma nodes_restApi:
  "domain_nodes (if b then [RestApiNode a] else []) = []"
  "function_nodes (if b then [RestApiNode a] else []) = []"
  "role_nodes (if b then [RestApiNode a] else []) = []"
  "topic_nodes (if b then [RestApiNode a] else []) = []"
  "restApi_nodes (if b then [RestApiNode a] else []) = (if b then [a] else [])"
  by (simp_all add: node_defs)

lemma new_DCDataplane_summary:
  "\<exists>d cfg stf igf osd.
      new_DCDataplane p = Inr d
    \<and> config d = Some cfg
    \<and> cfg = (case props_config p of Some c \<Rightarrow> c | None \<Rightarrow> new_DCDataplaneConfig_noargs)
    \<and> removalPolicy d = Some (if prodLike (props_account p) then RETAIN else DESTROY)
    \<and> stacFunction d = Some stf
    \<and> ingestFunction d = Some igf
    \<and> fn_id stf = ''DCStacFunction''
    \<and> fn_id igf = ''DCIngestFunction''
    \<and> environment (fn_props stf) = environment (fn_props igf)
    \<and> map_of (environment (fn_props stf)) ''ES_HOST'' = Some (domainEndpoint osd)
    \<and> domain_id osd = ''DCOSDomain''
    \<and> domain_removalPolicy (domain_props osd)
        = (if prodLike (props_account p) then RETAIN else DESTROY)
    \<and> accessPolicies osd =
        [\<lparr>effect = None, principals = [AnyPrincipal], actions = [''es:ESHttp*''],
          resources = [domainArn osd @ ''/*'']\<rparr>]
    \<and> domain_nodes (children d) = [osd]
    \<and> function_nodes (children d) = [stf, igf]
    \<and> restApi_nodes (children d) =
        (if auth (props_account p) then
           [OSMLRestApi ''DCRestApi''
              \<lparr>api_account = props_account p,
               api_name = SERVICE_NAME_ABBREVIATION cfg,
               apiStageName = STAC_FASTAPI_ROOT_PATH cfg,
               integration = LambdaIntegration stf\<rparr>]
         else [])
    \<and> role_nodes (children d) =
        (case props_lambdaRole p of
           Some r \<Rightarrow> []
         | None \<Rightarrow> [DCLambdaRole ''DCLambdaRole''
             \<lparr>dcrole_account = props_account p, dcrole_roleName = LAMBDA_ROLE_NAME cfg\<rparr>])
    \<and> topic_nodes (children d) =
        (case props_ingestTopic p of
           Some t \<Rightarrow> []
         | None \<Rightarrow> [Topic ''DIOutputTopic'' \<lparr>topicName = SNS_INGEST_TOPIC_NAME cfg\<rparr>])"
proof -
  obtain d0 cfg topic where s: "DCDataplane_setup p super_Construct = Inr d0"
    and c: "config d0 = Some cfg"
    and ce: "cfg = (case props_config p of Some c \<Rightarrow> c | None \<Rightarrow> new_DCDataplaneConfig_noargs)"
    and t: "ingestTopic d0 = Some topic"
    and r: "removalPolicy d0 = Some (if prodLike (props_account p) then RETAIN else DESTROY)"
    and n0: "domain_nodes (children d0) = []" "function_nodes (children d0) = []"
      "restApi_nodes (children d0) = []"
    and n1: "role_nodes (children d0) =
        (case props_lambdaRole p of
           Some r \<Rightarrow> []
         | None \<Rightarrow> [DCLambdaRole ''DCLambdaRole''
             \<lparr>dcrole_account = props_account p, dcrole_roleName = LAMBDA_ROLE_NAME cfg\<rparr>])"
    and n2: "topic_nodes (children d0) =
        (case props_ingestTopic p of
           Some t \<Rightarrow> []
         | None \<Rightarrow> [Topic ''DIOutputTopic'' \<lparr>topicName = SNS_INGEST_TOPIC_NAME cfg\<rparr>])"
    using setup_super_nodes [of p] by blast
  from new_DCDataplane_fields [OF s c t] obtain d stf igf osd where
    f: "new_DCDataplane p = Inr d" "config d = Some cfg" "removalPolicy d = removalPolicy d0"
    "stacFunction d = Some stf" "ingestFunction d = Some igf"
    "fn_id stf = ''DCStacFunction''" "fn_id igf = ''DCIngestFunction''"
    "environment (fn_props stf) = environment (fn_props igf)"
    "map_of (environment (fn_props stf)) ''ES_HOST'' = Some (domainEndpoint osd)"
    "domain_id osd = ''DCOSDomain''"
    "domain_removalPolicy (domain_props osd)
        = (if prodLike (props_account p) then RETAIN else DESTROY)"
    "accessPolicies osd =
        [\<lparr>effect = None, principals = [AnyPrincipal], actions = [''es:ESHttp*''],
          resources = [domainArn osd @ ''/*'']\<rparr>]"
    and ch: "children d = children d0
         @ [SecurityGroupNode (SecurityGroup ''DCOSSecurityGroup'' \<lparr>sg_vpc = vpc (props_osmlVpc p)\<rparr>),
            DomainNode osd, FunctionNode stf]
         @ (if auth (props_account p) then
              [RestApiNode (OSMLRestApi ''DCRestApi''
                 \<lparr>api_account = props_account p,
                  api_name = SERVICE_NAME_ABBREVIATION cfg,
                  apiStageName = STAC_FASTAPI_ROOT_PATH cfg,
                  integration = LambdaIntegration stf\<rparr>)]
            else [])
         @ [FunctionNode igf]"
    by (elim exE conjE) (rule that; assumption)
  have n: "domain_nodes (children d) = [osd]"
    "function_nodes (children d) = [stf, igf]"
    "restApi_nodes (children d) =
        (if auth (props_account p) then
           [OSMLRestApi ''DCRestApi''
              \<lparr>api_account = props_account p,
               api_name = SERVICE_NAME_ABBREVIATION cfg,
               apiStageName = STAC_FASTAPI_ROOT_PATH cfg,
               integration = LambdaIntegration stf\<rparr>]
         else [])"
    "role_nodes (children d) = role_nodes (children d0)"
    "topic_nodes (children d) = topic_nodes (children d0)"
    unfolding ch nodes_after_setup nodes_restApi n0 by simp_all
  show ?thesis
    apply (rule exI [of _ d], rule exI [of _ cfg], rule exI [of _ stf], rule exI [of _ igf],
        rule exI [of _ osd])
    apply (intro conjI)
    apply (fact f ce n | simp only: f r n n1 n2)+
    done
qed

section \<open>Properties of the tile server lambda role\<close>

text \<open>
  C3. The spec has the composition fail with a hard error when the partition lookup
  for the account's region finds nothing. In the code nothing is raised: for a region
  the fact table does not know, the constructor returns a role, the \<open>partition\<close>
  field is undefined, and the ARNs carry the text \<^verbatim>\<open>undefined\<close> where the
  partition belongs.
\<close>

theorem ts_lambda_role_lookup_failure_completes:
  "test_facts (region unknown_region_account) PARTITION = None
   \<and> ts_partition (new_TSLambdaRole test_facts test_ts_config
        \<lparr>tsprops_account = unknown_region_account, tsprops_roleName = ''TSLambdaRole''\<rparr>) = None
   \<and> map resources (policy (role (new_TSLambdaRole test_facts test_ts_config
        \<lparr>tsprops_account = unknown_region_account, tsprops_roleName = ''TSLambdaRole''\<rparr>)))
      = [[''arn:undefined:dynamodb:mars-north-1:123456789012:table/TSJobTable''],
         [''arn:undefined:lambda:mars-north-1:123456789012:function:*''],
         [''*''],
         [''arn:undefined:logs:mars-north-1:123456789012:*'']]"
  by (simp add: new_TSLambdaRole_def new_Role_def addToPolicy_def interpolate_def
      test_facts_def unknown_region_account_def test_ts_config_def PARTITION_def)

text \<open>
  C4. When the partition of the account's region resolves, the role's policy is exactly
  the four statements of the source, in order: the three DynamoDB item actions on the
  job table, \<^verbatim>\<open>lambda:GetFunctionConfiguration\<close> on the account's functions, the
  load-balancer and network-interface actions on every resource, and the three log
  actions on the account's logs; each ARN is built from the resolved partition, the
  account's region, the account's id and the default job table name.
\<close>

theorem ts_lambda_role_statements:
  assumes "Fact_find (region (tsprops_account props)) PARTITION = Some part"
  shows "policy (role (new_TSLambdaRole Fact_find cfg props)) =
    [\<lparr>effect = Some ALLOW, principals = [],
      actions = [''dynamodb:GetItem'', ''dynamodb:PutItem'', ''dynamodb:UpdateItem''],
      resources = [''arn:'' @ part @ '':dynamodb:'' @ region (tsprops_account props) @ '':''
                    @ acct_id (tsprops_account props) @ '':table/'' @ DDB_JOB_TABLE cfg]\<rparr>,
     \<lparr>effect = Some ALLOW, principals = [],
      actions = [''lambda:GetFunctionConfiguration''],
      resources = [''arn:'' @ part @ '':lambda:'' @ region (tsprops_account props) @ '':''
                    @ acct_id (tsprops_account props) @ '':function:*'']\<rparr>,
     \<lparr>effect = Some ALLOW, principals = [],
      actions = [''elasticloadbalancing:DescribeLoadBalancers'',
                 ''ec2:CreateNetworkInterface'',
                 ''ec2:DescribeNetworkInterfaces'',
                 ''ec2:DeleteNetworkInterface'',
                 ''ec2:DescribeInstances'',
                 ''ec2:AttachNetworkInterface''],
      resources = [''*'']\<rparr>,
     \<lparr>effect = Some ALLOW, principals = [],
      actions = [''logs:CreateLogGroup'', ''logs:CreateLogStream'', ''logs:PutLogEvents''],
      resources = [''arn:'' @ part @ '':logs:'' @ region (tsprops_account props) @ '':''
                    @ acct_id (tsprops_account props) @ '':*'']\<rparr>]"
  using assms
  by (simp add: new_TSLambdaRole_def new_Role_def addToPolicy_def interpolate_def)

theorem ts_lambda_role_statements_witness:
  "test_facts ''us-east-1'' PARTITION = Some ''aws''
   \<and> policy (role (new_TSLambdaRole test_facts test_ts_config
        \<lparr>tsprops_account = test_account, tsprops_roleName = ''TSLambdaRole''\<rparr>)) =
    [\<lparr>effect = Some ALLOW, principals = [],
      actions = [''dynamodb:GetItem'', ''dynamodb:PutItem'', ''dynamodb:UpdateItem''],
      resources = [''arn:aws:dynamodb:us-east-1:123456789012:table/TSJobTable'']\<rparr>,
     \<lparr>effect = Some ALLOW, principals = [],
      actions = [''lambda:GetFunctionConfiguration''],
      resources = [''arn:aws:lambda:us-east-1:123456789012:function:*'']\<rparr>,
     \<lparr>effect = Some ALLOW, principals = [],
      actions = [''elasticloadbalancing:DescribeLoadBalancers'',
                 ''ec2:CreateNetworkInterface'',
                 ''ec2:DescribeNetworkInterfaces'',
                 ''ec2:DeleteNetworkInterface'',
                 ''ec2:DescribeInstances'',
                 ''ec2:AttachNetworkInterface''],
      resources = [''*'']\<rparr>,
     \<lparr>effect = Some ALLOW, principals = [],
      actions = [''logs:CreateLogGroup'', ''logs:CreateLogStream'', ''logs:PutLogEvents''],
      resources = [''arn:aws:logs:us-east-1:123456789012:*'']\<rparr>]"
proof -
  have h: "test_facts (region (tsprops_account
             \<lparr>tsprops_account = test_account, tsprops_roleName = ''TSLambdaRole''\<rparr>)) PARTITION
           = Some ''aws''"
    by (simp add: test_facts_def test_account_def PARTITION_def)
  show ?thesis
    using ts_lambda_role_statements
      [where Fact_find = test_facts and part = "''aws''" and cfg = test_ts_config, OF h]
    by (simp add: test_facts_def test_account_def test_ts_config_def PARTITION_def)
qed

section \<open>Properties of the data catalog dataplane\<close>

text \<open>
  C1. The spec has every optional collaborator that is left out replaced by a resource
  created by default, with no field left undefined. As amended: when \<^verbatim>\<open>ingestTopic\<close>,
  \<^verbatim>\<open>securityGroupId\<close> and \<^verbatim>\<open>lambdaRole\<close> are all left out, the setup step run by the
  constructor returns, \<open>lambdaRole\<close> is the role of a newly declared
  \<^verbatim>\<open>DCLambdaRole\<close> named by the configuration in effect, \<open>ingestTopic\<close> is a newly
  declared topic named by the configuration in effect, and these two are the only
  constructs declared; \<open>securityGroup\<close> stays undefined, since the setup step creates
  no security group.
\<close>

theorem setup_defaults_when_omitted:
  assumes "props_ingestTopic p = None"
    and "props_securityGroupId p = None"
    and "props_lambdaRole p = None"
  shows "\<exists>d cfg. DCDataplane_setup p super_Construct = Inr d \<and> config d = Some cfg
    \<and> cfg = (case props_config p of Some c \<Rightarrow> c | None \<Rightarrow> new_DCDataplaneConfig_noargs)
    \<and> lambdaRole d = Some (DCLambdaRole_role (DCLambdaRole ''DCLambdaRole''
          \<lparr>dcrole_account = props_account p, dcrole_roleName = LAMBDA_ROLE_NAME cfg\<rparr>))
    \<and> ingestTopic d = Some (Topic ''DIOutputTopic'' \<lparr>topicName = SNS_INGEST_TOPIC_NAME cfg\<rparr>)
    \<and> securityGroup d = None
    \<and> children d =
        [TopicNode (Topic ''DIOutputTopic'' \<lparr>topicName = SNS_INGEST_TOPIC_NAME cfg\<rparr>),
         DCLambdaRoleNode (DCLambdaRole ''DCLambdaRole''
          \<lparr>dcrole_account = props_account p, dcrole_roleName = LAMBDA_ROLE_NAME cfg\<rparr>)]"
  using setup_fields [of p super_Construct] assms
  by (clarsimp simp: super_Construct_def)

theorem setup_defaults_when_omitted_witness:
  "props_ingestTopic test_props = None \<and> props_securityGroupId test_props = None
   \<and> props_lambdaRole test_props = None
   \<and> (\<exists>d. DCDataplane_setup test_props super_Construct = Inr d
      \<and> lambdaRole d = Some (DCLambdaRole_role (DCLambdaRole ''DCLambdaRole''
          \<lparr>dcrole_account = test_account, dcrole_roleName = ''DCLambdaRole''\<rparr>))
      \<and> ingestTopic d = Some (Topic ''DIOutputTopic'' \<lparr>topicName = ''osml-stac-ingest''\<rparr>)
      \<and> securityGroup d = None)"
proof -
  have h: "props_ingestTopic test_props = None" "props_securityGroupId test_props = None"
    "props_lambdaRole test_props = None"
    by (simp_all add: test_props_def)
  have n: "LAMBDA_ROLE_NAME new_DCDataplaneConfig_noargs = ''DCLambdaRole''"
    "SNS_INGEST_TOPIC_NAME new_DCDataplaneConfig_noargs = ''osml-stac-ingest''"
    by (simp_all add: new_DCDataplaneConfig_noargs_def new_DCDataplaneConfig_def default_param_def)
  show ?thesis
    using setup_defaults_when_omitted [OF h] h n
    by (auto simp: test_props_def)
qed

text \<open>
  The claim as first stated fails: with the three collaborators left out, the state
  after the setup step has no security group.
\<close>

theorem setup_securityGroup_undefined_counterexample:
  "props_ingestTopic test_props = None \<and> props_securityGroupId test_props = None
   \<and> props_lambdaRole test_props = None
   \<and> DCDataplane_setup test_props super_Construct =
      Inr \<lparr>removalPolicy = Some DESTROY,
           config = Some new_DCDataplaneConfig_noargs,
           dockerImageCode = None,
           lambdaRole = Some (DCLambdaRole_role (DCLambdaRole ''DCLambdaRole''
             \<lparr>dcrole_account = test_account, dcrole_roleName = ''DCLambdaRole''\<rparr>)),
           ingestTopic = Some (Topic ''DIOutputTopic'' \<lparr>topicName = ''osml-stac-ingest''\<rparr>),
           securityGroup = None,
           ingestFunction = None,
           stacFunction = None,
           children =
             [TopicNode (Topic ''DIOutputTopic'' \<lparr>topicName = ''osml-stac-ingest''\<rparr>),
              DCLambdaRoleNode (DCLambdaRole ''DCLambdaRole''
                \<lparr>dcrole_account = test_account, dcrole_roleName = ''DCLambdaRole''\<rparr>)],
           subscriptions = []\<rparr>"
  by (simp add: test_props_def test_account_def super_Construct_def
      DCDataplane_setup_def setup_config_def setup_securityGroup_def
      setup_ingestTopic_def setup_removalPolicy_def setup_lambdaRole_def and_then_def
      this_config_def Let_def new_DCDataplaneConfig_noargs_def new_DCDataplaneConfig_def
      default_param_def)

text \<open>
  C2. A collaborator that is supplied is adopted as it is, and the setup step declares no
  new resource of its kind. A supplied \<^verbatim>\<open>lambdaRole\<close> becomes the field
  \<open>lambdaRole\<close> unchanged, and no \<^verbatim>\<open>DCLambdaRole\<close> is declared. A supplied
  \<^verbatim>\<open>ingestTopic\<close> becomes the field \<open>ingestTopic\<close> unchanged, and no topic is
  declared. The id of an existing security group, a string that is not empty, makes
  \<open>securityGroup\<close> the handle on exactly that group, the import of the id under the
  construct id \<^verbatim>\<open>DCImportSecurityGroup\<close>, and no new security group is declared.
  None of the three is checked against what the dataplane needs. The empty string
  names no group: the source tests the id for truthiness, and the last conjunct records
  that such an id leaves \<open>securityGroup\<close> and the declared nodes as they were.
\<close>

theorem setup_adopts_supplied:
  "(props_lambdaRole p = Some r \<longrightarrow>
      (\<exists>d. DCDataplane_setup p this = Inr d \<and> lambdaRole d = Some r
         \<and> role_nodes (children d) = role_nodes (children this)))
   \<and> (props_ingestTopic p = Some t \<longrightarrow>
      (\<exists>d. DCDataplane_setup p this = Inr d \<and> ingestTopic d = Some t
         \<and> topic_nodes (children d) = topic_nodes (children this)))
   \<and> (props_securityGroupId p = Some g \<and> g \<noteq> [] \<longrightarrow>
      (\<exists>d. DCDataplane_setup p this = Inr d
         \<and> securityGroup d = Some (fromSecurityGroupId ''DCImportSecurityGroup'' g)
         \<and> filter is_new_SecurityGroup (securityGroup_nodes (children d))
           = filter is_new_SecurityGroup (securityGroup_nodes (children this))))
   \<and> (props_securityGroupId p = Some [] \<longrightarrow>
      (\<exists>d. DCDataplane_setup p this = Inr d \<and> securityGroup d = securityGroup this
         \<and> securityGroup_nodes (children d) = securityGroup_nodes (children this)))"
  using setup_fields [of p this]
  by (auto simp: node_defs truthy_def split: option.splits)

theorem setup_adopts_supplied_witness:
  "props_lambdaRole supplied_props = Some (ExistingRole ''arn:aws:iam::123456789012:role/CatalogRole'')
   \<and> props_ingestTopic supplied_props
       = Some (ExistingTopic ''arn:aws:sns:us-east-1:123456789012:stac-items'')
   \<and> props_securityGroupId supplied_props = Some ''sg-0123456789abcdef0''
   \<and> ''sg-0123456789abcdef0'' \<noteq> []
   \<and> (\<exists>d. DCDataplane_setup supplied_props super_Construct = Inr d
        \<and> lambdaRole d = Some (ExistingRole ''arn:aws:iam::123456789012:role/CatalogRole'')
        \<and> ingestTopic d = Some (ExistingTopic ''arn:aws:sns:us-east-1:123456789012:stac-items'')
        \<and> securityGroup d
            = Some (fromSecurityGroupId ''DCImportSecurityGroup'' ''sg-0123456789abcdef0'')
        \<and> role_nodes (children d) = []
        \<and> topic_nodes (children d) = []
        \<and> filter is_new_SecurityGroup (securityGroup_nodes (children d)) = [])"
  using setup_adopts_supplied [of supplied_props
      "ExistingRole ''arn:aws:iam::123456789012:role/CatalogRole''" super_Construct
      "ExistingTopic ''arn:aws:sns:us-east-1:123456789012:stac-items''"
      "''sg-0123456789abcdef0''"]
  by (auto simp: supplied_props_def super_Construct_def node_defs)

text \<open>
  C5. The configuration in effect is all or nothing. With \<^verbatim>\<open>props.config\<close> supplied, the
  field \<open>config\<close> of the dataplane is exactly that object; with \<^verbatim>\<open>props.config\<close>
  absent it is \<^verbatim>\<open>new DCDataplaneConfig()\<close>, in which every field has its default
  (memory size 4096, timeout 300, topic name \<^verbatim>\<open>osml-stac-ingest\<close>, and so on); and a
  \<^verbatim>\<open>DCDataplaneConfig\<close> built with nineteen explicit arguments holds exactly those
  arguments.
\<close>

theorem config_all_or_nothing:
  "(props_config p = Some c \<longrightarrow> (\<exists>d. new_DCDataplane p = Inr d \<and> config d = Some c))
   \<and> (props_config p = None \<longrightarrow>
        (\<exists>d. new_DCDataplane p = Inr d \<and> config d = Some new_DCDataplaneConfig_noargs))
   \<and> new_DCDataplaneConfig_noargs =
       \<lparr>LAMBDA_ROLE_NAME = ''DCLambdaRole'',
        LAMBDA_MEMORY_SIZE = 4096,
        LAMBDA_STORAGE_SIZE = 10,
        LAMBDA_TIMEOUT = 300,
        OS_DATA_NODES = 4,
        OS_EBS_SIZE = 10,
        STAC_FASTAPI_BACKEND = ''opensearch'',
        STAC_FASTAPI_TITLE = ''stac-fastapi-opensearch'',
        STAC_FASTAPI_DESCRIPTION = ''A STAC FastAPI with an OpenSearch backend'',
        STAC_FASTAPI_VERSION = ''2.4.1'',
        STAC_FASTAPI_ROOT_PATH = ''data-catalog'',
        RELOAD = ''true'',
        ENVIRONMENT = ''local'',
        WEB_CONCURRENCY = ''10'',
        ES_PORT = ''443'',
        ES_USE_SSL = ''true'',
        ES_VERIFY_CERTS = ''true'',
        SERVICE_NAME_ABBREVIATION = ''DC'',
        SNS_INGEST_TOPIC_NAME = ''osml-stac-ingest''\<rparr>
   \<and> new_DCDataplaneConfig (Some a1) (Some a2) (Some a3) (Some a4) (Some a5) (Some a6) (Some a7)
         (Some a8) (Some a9) (Some a10) (Some a11) (Some a12) (Some a13) (Some a14) (Some a15)
         (Some a16) (Some a17) (Some a18) (Some a19) =
       \<lparr>LAMBDA_ROLE_NAME = a1,
        LAMBDA_MEMORY_SIZE = a2,
        LAMBDA_STORAGE_SIZE = a3,
        LAMBDA_TIMEOUT = a4,
        OS_DATA_NODES = a5,
        OS_EBS_SIZE = a6,
        STAC_FASTAPI_BACKEND = a7,
        STAC_FASTAPI_TITLE = a8,
        STAC_FASTAPI_DESCRIPTION = a9,
        STAC_FASTAPI_VERSION = a10,
        STAC_FASTAPI_ROOT_PATH = a11,
        RELOAD = a12,
        ENVIRONMENT = a13,
        WEB_CONCURRENCY = a14,
        ES_PORT = a15,
        ES_USE_SSL = a16,
        ES_VERIFY_CERTS = a17,
        SERVICE_NAME_ABBREVIATION = a18,
        SNS_INGEST_TOPIC_NAME = a19\<rparr>"
proof (intro conjI impI)
  assume "props_config p = Some c"
  then show "\<exists>d. new_DCDataplane p = Inr d \<and> config d = Some c"
    using new_DCDataplane_config [of p] by simp
next
  assume "props_config p = None"
  then show "\<exists>d. new_DCDataplane p = Inr d \<and> config d = Some new_DCDataplaneConfig_noargs"
    using new_DCDataplane_config [of p] by simp
qed (simp_all add: new_DCDataplaneConfig_noargs_def new_DCDataplaneConfig_def default_param_def)

theorem config_all_or_nothing_witness:
  "props_config custom_config_props = Some custom_config
   \<and> (\<exists>d. new_DCDataplane custom_config_props = Inr d \<and> config d = Some custom_config)
   \<and> props_config test_props = None
   \<and> (\<exists>d. new_DCDataplane test_props = Inr d \<and> config d = Some new_DCDataplaneConfig_noargs)
   \<and> LAMBDA_MEMORY_SIZE new_DCDataplaneConfig_noargs = 4096
   \<and> LAMBDA_TIMEOUT new_DCDataplaneConfig_noargs = 300
   \<and> SNS_INGEST_TOPIC_NAME new_DCDataplaneConfig_noargs = ''osml-stac-ingest''"
proof -
  have a: "props_config custom_config_props = Some custom_config"
    by (simp add: custom_config_props_def)
  have b: "props_config test_props = None"
    by (simp add: test_props_def)
  from config_all_or_nothing [of custom_config_props custom_config, THEN conjunct1] a
  have 1: "\<exists>d. new_DCDataplane custom_config_props = Inr d \<and> config d = Some custom_config"
    by blast
  from config_all_or_nothing [of test_props, THEN conjunct2, THEN conjunct1] b
  have 2: "\<exists>d. new_DCDataplane test_props = Inr d \<and> config d = Some new_DCDataplaneConfig_noargs"
    by blast
  have 3: "LAMBDA_MEMORY_SIZE new_DCDataplaneConfig_noargs = 4096"
    "LAMBDA_TIMEOUT new_DCDataplaneConfig_noargs = 300"
    "SNS_INGEST_TOPIC_NAME new_DCDataplaneConfig_noargs = ''osml-stac-ingest''"
    unfolding config_all_or_nothing [of test_props, THEN conjunct2, THEN conjunct2, THEN conjunct1]
    by simp_all
  show ?thesis
    using a b 1 2 3 by simp
qed

text \<open>
  C6. The decisions of the setup step do not depend on each other. Changing
  \<^verbatim>\<open>lambdaRole\<close> and \<^verbatim>\<open>securityGroupId\<close> of the properties in any way changes
  neither the resulting \<open>ingestTopic\<close> nor the topics declared; changing
  \<^verbatim>\<open>ingestTopic\<close> and \<^verbatim>\<open>securityGroupId\<close> changes neither the resulting
  \<open>lambdaRole\<close> nor the roles declared; changing \<^verbatim>\<open>ingestTopic\<close> and
  \<^verbatim>\<open>lambdaRole\<close> changes neither the resulting \<open>securityGroup\<close> nor the security
  group nodes declared.
\<close>

theorem setup_fields_independent:
  "(\<exists>d d'. DCDataplane_setup p this = Inr d
      \<and> DCDataplane_setup (p\<lparr>props_lambdaRole := r, props_securityGroupId := g\<rparr>) this = Inr d'
      \<and> ingestTopic d' = ingestTopic d
      \<and> topic_nodes (children d') = topic_nodes (children d))
   \<and> (\<exists>d d'. DCDataplane_setup p this = Inr d
      \<and> DCDataplane_setup (p\<lparr>props_ingestTopic := t, props_securityGroupId := g\<rparr>) this = Inr d'
      \<and> lambdaRole d' = lambdaRole d
      \<and> role_nodes (children d') = role_nodes (children d))
   \<and> (\<exists>d d'. DCDataplane_setup p this = Inr d
      \<and> DCDataplane_setup (p\<lparr>props_ingestTopic := t, props_lambdaRole := r\<rparr>) this = Inr d'
      \<and> securityGroup d' = securityGroup d
      \<and> securityGroup_nodes (children d') = securityGroup_nodes (children d))"
proof (intro conjI)
  show "\<exists>d d'. DCDataplane_setup p this = Inr d
      \<and> DCDataplane_setup (p\<lparr>props_lambdaRole := r, props_securityGroupId := g\<rparr>) this = Inr d'
      \<and> ingestTopic d' = ingestTopic d
      \<and> topic_nodes (children d') = topic_nodes (children d)"
    using setup_fields [of p this]
      setup_fields [of "p\<lparr>props_lambdaRole := r, props_securityGroupId := g\<rparr>" this]
    by (auto simp: node_defs split: option.splits)
  show "\<exists>d d'. DCDataplane_setup p this = Inr d
      \<and> DCDataplane_setup (p\<lparr>props_ingestTopic := t, props_securityGroupId := g\<rparr>) this = Inr d'
      \<and> lambdaRole d' = lambdaRole d
      \<and> role_nodes (children d') = role_nodes (children d)"
    using setup_fields [of p this]
      setup_fields [of "p\<lparr>props_ingestTopic := t, props_securityGroupId := g\<rparr>" this]
    by (auto simp: node_defs split: option.splits)
  show "\<exists>d d'. DCDataplane_setup p this = Inr d
      \<and> DCDataplane_setup (p\<lparr>props_ingestTopic := t, props_lambdaRole := r\<rparr>) this = Inr d'
      \<and> securityGroup d' = securityGroup d
      \<and> securityGroup_nodes (children d') = securityGroup_nodes (children d)"
    using setup_fields [of p this]
      setup_fields [of "p\<lparr>props_ingestTopic := t, props_lambdaRole := r\<rparr>" this]
    by (auto simp: node_defs split: option.splits)
qed

text \<open>
  C7. An \<^verbatim>\<open>OSMLRestApi\<close> is declared exactly when \<^verbatim>\<open>account.auth\<close> holds: then there
  is one, with construct id \<^verbatim>\<open>DCRestApi\<close>, whose integration is a
  \<^verbatim>\<open>LambdaIntegration\<close> of the dataplane's \<open>stacFunction\<close>; otherwise there is
  none.
\<close>

theorem restApi_iff_auth:
  "\<exists>d cfg stf. new_DCDataplane p = Inr d \<and> config d = Some cfg \<and> stacFunction d = Some stf
    \<and> restApi_nodes (children d) =
        (if auth (props_account p) then
           [OSMLRestApi ''DCRestApi''
              \<lparr>api_account = props_account p,
               api_name = SERVICE_NAME_ABBREVIATION cfg,
               apiStageName = STAC_FASTAPI_ROOT_PATH cfg,
               integration = LambdaIntegration stf\<rparr>]
         else [])"
  using new_DCDataplane_summary [of p]
  by (elim exE conjE) (intro exI conjI; assumption)

theorem restApi_iff_auth_witness:
  "auth (props_account auth_props) \<and> \<not> auth (props_account test_props)
   \<and> (\<exists>d cfg stf. new_DCDataplane auth_props = Inr d \<and> config d = Some cfg
        \<and> stacFunction d = Some stf
        \<and> restApi_nodes (children d) =
           [OSMLRestApi ''DCRestApi''
              \<lparr>api_account = auth_account,
               api_name = SERVICE_NAME_ABBREVIATION cfg,
               apiStageName = STAC_FASTAPI_ROOT_PATH cfg,
               integration = LambdaIntegration stf\<rparr>])
   \<and> (\<exists>d. new_DCDataplane test_props = Inr d \<and> restApi_nodes (children d) = [])"
proof -
  have a: "auth (props_account auth_props)" "props_account auth_props = auth_account"
    by (simp_all add: auth_props_def auth_account_def)
  have b: "\<not> auth (props_account test_props)"
    by (simp add: test_props_def test_account_def)
  show ?thesis
    using restApi_iff_auth [of auth_props] restApi_iff_auth [of test_props] a b
    by auto
qed

text \<open>
  C8. With no optional property supplied, the dataplane declares exactly one
  \<^verbatim>\<open>DCLambdaRole\<close>, given the default role name \<^verbatim>\<open>DCLambdaRole\<close>; exactly one topic,
  named \<^verbatim>\<open>osml-stac-ingest\<close>; exactly two functions, the STAC function and the ingest
  function; and exactly one OpenSearch domain. Both functions get the same environment,
  whose \<^verbatim>\<open>ES_HOST\<close> entry is the endpoint of that domain.
\<close>

theorem defaults_scenario:
  assumes "props_ingestTopic p = None"
    and "props_securityGroupId p = None"
    and "props_lambdaRole p = None"
    and "props_config p = None"
  shows "\<exists>d stf igf osd. new_DCDataplane p = Inr d
    \<and> role_nodes (children d) =
        [DCLambdaRole ''DCLambdaRole''
           \<lparr>dcrole_account = props_account p,
            dcrole_roleName = LAMBDA_ROLE_NAME new_DCDataplaneConfig_noargs\<rparr>]
    \<and> LAMBDA_ROLE_NAME new_DCDataplaneConfig_noargs = ''DCLambdaRole''
    \<and> topic_nodes (children d) = [Topic ''DIOutputTopic'' \<lparr>topicName = ''osml-stac-ingest''\<rparr>]
    \<and> function_nodes (children d) = [stf, igf]
    \<and> stacFunction d = Some stf
    \<and> ingestFunction d = Some igf
    \<and> fn_id stf = ''DCStacFunction''
    \<and> fn_id igf = ''DCIngestFunction''
    \<and> domain_nodes (children d) = [osd]
    \<and> environment (fn_props stf) = environment (fn_props igf)
    \<and> map_of (environment (fn_props stf)) ''ES_HOST'' = Some (domainEndpoint osd)"
proof -
  have n: "LAMBDA_ROLE_NAME new_DCDataplaneConfig_noargs = ''DCLambdaRole''"
    "SNS_INGEST_TOPIC_NAME new_DCDataplaneConfig_noargs = ''osml-stac-ingest''"
    by (simp_all add: new_DCDataplaneConfig_noargs_def new_DCDataplaneConfig_def default_param_def)
  from new_DCDataplane_summary [of p] obtain d cfg stf igf osd where
    f: "new_DCDataplane p = Inr d"
    "stacFunction d = Some stf" "ingestFunction d = Some igf"
    "fn_id stf = ''DCStacFunction''" "fn_id igf = ''DCIngestFunction''"
    "environment (fn_props stf) = environment (fn_props igf)"
    "map_of (environment (fn_props stf)) ''ES_HOST'' = Some (domainEndpoint osd)"
    "domain_nodes (children d) = [osd]"
    "function_nodes (children d) = [stf, igf]"
    and ce: "cfg = (case props_config p of Some c \<Rightarrow> c | None \<Rightarrow> new_DCDataplaneConfig_noargs)"
    and rn: "role_nodes (children d) =
        (case props_lambdaRole p of
           Some r \<Rightarrow> []
         | None \<Rightarrow> [DCLambdaRole ''DCLambdaRole''
             \<lparr>dcrole_account = props_account p, dcrole_roleName = LAMBDA_ROLE_NAME cfg\<rparr>])"
    and tn: "topic_nodes (children d) =
        (case props_ingestTopic p of
           Some t \<Rightarrow> []
         | None \<Rightarrow> [Topic ''DIOutputTopic'' \<lparr>topicName = SNS_INGEST_TOPIC_NAME cfg\<rparr>])"
    by (elim exE conjE) (rule that; assumption)
  have cfg: "cfg = new_DCDataplaneConfig_noargs"
    using ce assms(4) by simp
  have rn': "role_nodes (children d) =
        [DCLambdaRole ''DCLambdaRole''
           \<lparr>dcrole_account = props_account p,
            dcrole_roleName = LAMBDA_ROLE_NAME new_DCDataplaneConfig_noargs\<rparr>]"
    using rn assms(3) cfg by simp
  have tn': "topic_nodes (children d) = [Topic ''DIOutputTopic'' \<lparr>topicName = ''osml-stac-ingest''\<rparr>]"
    using tn assms(1) cfg n(2) by simp
  show ?thesis
    apply (rule exI [of _ d], rule exI [of _ stf], rule exI [of _ igf], rule exI [of _ osd])
    apply (intro conjI)
    apply (fact f rn' tn' n)+
    done
qed

theorem defaults_scenario_witness:
  "props_ingestTopic test_props = None \<and> props_securityGroupId test_props = None
   \<and> props_lambdaRole test_props = None \<and> props_config test_props = None
   \<and> (\<exists>d stf igf osd. new_DCDataplane test_props = Inr d
        \<and> role_nodes (children d) =
            [DCLambdaRole ''DCLambdaRole''
               \<lparr>dcrole_account = test_account, dcrole_roleName = ''DCLambdaRole''\<rparr>]
        \<and> topic_nodes (children d) = [Topic ''DIOutputTopic'' \<lparr>topicName = ''osml-stac-ingest''\<rparr>]
        \<and> function_nodes (children d) = [stf, igf]
        \<and> domain_nodes (children d) = [osd]
        \<and> environment (fn_props stf) = environment (fn_props igf)
        \<and> map_of (environment (fn_props stf)) ''ES_HOST'' = Some (domainEndpoint osd))"
proof -
  have h: "props_ingestTopic test_props = None" "props_securityGroupId test_props = None"
    "props_lambdaRole test_props = None" "props_config test_props = None"
    "props_account test_props = test_account"
    by (simp_all add: test_props_def)
  show ?thesis
    using defaults_scenario [OF h(1-4)] h
    by auto
qed

text \<open>
  C9. The field \<open>removalPolicy\<close> of the dataplane and the removal policy of its
  OpenSearch domain are both \<^verbatim>\<open>RETAIN\<close> when \<^verbatim>\<open>account.prodLike\<close> holds, and both
  \<^verbatim>\<open>DESTROY\<close> otherwise.
\<close>

theorem removalPolicy_follows_prodLike:
  "\<exists>d osd. new_DCDataplane p = Inr d
    \<and> removalPolicy d = Some (if prodLike (props_account p) then RETAIN else DESTROY)
    \<and> domain_nodes (children d) = [osd]
    \<and> domain_removalPolicy (domain_props osd)
        = (if prodLike (props_account p) then RETAIN else DESTROY)"
  using new_DCDataplane_summary [of p]
  by (elim exE conjE) (intro exI conjI; assumption)

theorem removalPolicy_follows_prodLike_witness:
  "prodLike (props_account auth_props) \<and> \<not> prodLike (props_account test_props)
   \<and> (\<exists>d osd. new_DCDataplane auth_props = Inr d \<and> removalPolicy d = Some RETAIN
        \<and> domain_nodes (children d) = [osd]
        \<and> domain_removalPolicy (domain_props osd) = RETAIN)
   \<and> (\<exists>d osd. new_DCDataplane test_props = Inr d \<and> removalPolicy d = Some DESTROY
        \<and> domain_nodes (children d) = [osd]
        \<and> domain_removalPolicy (domain_props osd) = DESTROY)"
proof -
  have a: "prodLike (props_account auth_props)"
    by (simp add: auth_props_def auth_account_def)
  have b: "\<not> prodLike (props_account test_props)"
    by (simp add: test_props_def test_account_def)
  show ?thesis
    using removalPolicy_follows_prodLike [of auth_props]
      removalPolicy_follows_prodLike [of test_props] a b
    by auto
qed

text \<open>
  C10. Whatever the properties, the access policies of the dataplane's OpenSearch domain
  are one statement that allows any principal every action \<^verbatim>\<open>es:ESHttp*\<close> on every
  resource under the domain's ARN.
\<close>

theorem domain_open_access_policy:
  "\<exists>d osd s. new_DCDataplane p = Inr d
    \<and> domain_nodes (children d) = [osd]
    \<and> accessPolicies osd = [s]
    \<and> statement_effect s = ALLOW
    \<and> principals s = [AnyPrincipal]
    \<and> actions s = [''es:ESHttp*'']
    \<and> resources s = [domainArn osd @ ''/*'']"
proof -
  from new_DCDataplane_summary [of p] obtain d osd where
    f: "new_DCDataplane p = Inr d" "domain_nodes (children d) = [osd]"
    "accessPolicies osd =
        [\<lparr>effect = None, principals = [AnyPrincipal], actions = [''es:ESHttp*''],
          resources = [domainArn osd @ ''/*'']\<rparr>]"
    by (elim exE conjE) (rule that; assumption)
  show ?thesis
    apply (rule exI [of _ d], rule exI [of _ osd])
    apply (rule exI [of _ "\<lparr>effect = None, principals = [AnyPrincipal],
        actions = [''es:ESHttp*''], resources = [domainArn osd @ ''/*'']\<rparr>"])
    apply (simp add: f statement_effect_def)
    done
qed

end
